theory Spec2Isabelle
  imports Complex_Main
begin

section \<open>Data model of \<open>static/script.js\<close>\<close>

text \<open>
  The script keeps its state in module-level variables and in the page (the audio element,
  the word spans, the navigation buttons, the message line). The model gathers all of it in
  one record and gives every source function as a transformer of that record.

  Conventions of the embedding:
  \<^item> A card object is a position of \<open>masterFlashcardsData\<close>; the filtered array holds
    references to the same objects, so it is a list of positions. Writing
    \<open>filteredFlashcardsData[currentIndex].imagePath\<close> therefore changes the master entry.
  \<^item> Times are real numbers and indices are integers. The engine computes in binary64:
    every sum and quotient of the script is the exact result rounded to a double. The
    rounding is not part of the script and is a parameter, see \<open>rounding\<close>.
  \<^item> A handler runs to completion. An \<open>async\<close> function is run up to its end with the
    outcome of each awaited request supplied as an argument. \<open>playAudioFromApi\<close> is given
    in its steps as well (up to the request, the response, \<open>play()\<close> settled), so that
    other handlers, and other calls of it, can run between them.
  \<^item> An exception that leaves an \<open>async\<close> function or a promise callback only rejects a
    promise nobody observes: the function stops and the state reached so far stays.
  \<^item> The text fields of a card feed rendering and request bodies only. Rendering is taken
    not to throw (every card has a name and at least one definition), and the elements the
    page itself provides (\<open>#name\<close>, \<open>#flashcard\<close>, the buttons) exist.
  \<^item> User-visible messages are constructors, not strings.
\<close>

record card =
  card_id :: nat
  name :: string
  learned :: bool
  imagePath :: "string option"

datatype msg =
    Msg_loading_audio | Msg_playing | Msg_audio_ended | Msg_tts_error
  | Msg_loading_card | Msg_card_ready | Msg_generating | Msg_image_generated
  | Msg_ai_error | Msg_deleting | Msg_error | Msg_confirm_delete
  | Msg_confirm_cancelled | Msg_marking | Msg_fatal_error

text \<open>The element handed to \<open>playAudioFromApi\<close>: whether its tag is \<open>LI\<close>, and the
  \<open>SPAN\<close> children of its text container (element identifiers).\<close>

record item =
  tag_LI :: bool
  word_spans :: "nat list"

text \<open>The variables one call of \<open>playAudioFromApi\<close> closes over.\<close>

record session =
  wordSpans :: "nat list"
  lastHighlightedIndex :: int

text \<open>\<open>audioPlayer.duration\<close>: \<open>NaN\<close> while unknown, \<open>Infinity\<close> for an unbounded stream.\<close>

datatype duration = Dur_NaN | Dur real | Dur_Infinity

datatype word_time = Finite_time real | Infinite_time

datatype request =
    Req_flashcards_data
  | Req_synthesize_speech string
  | Req_generate_image nat
  | Req_delete_image nat
  | Req_update_status nat bool

text \<open>Outcomes of the awaited operations.\<close>

datatype fetch_status = Fetch_rejected | Fetch_not_ok | Fetch_ok

datatype tts_outcome =
    Tts_rejected | Tts_not_ok | Tts_bad_json | Tts_no_url | Tts_play_rejected | Tts_playing

datatype gen_outcome = Gen_rejected | Gen_not_ok | Gen_bad_json | Gen_ok "string option"

datatype img_event = Img_onload | Img_onerror

datatype 'a data_outcome = Data_rejected | Data_not_ok | Data_bad_json | Data_ok 'a

text \<open>What the page answers while one card is loaded; \<open>name_item\<close> is the element \<open>#name\<close>
  with the word spans \<open>renderCardName\<close> gives it.\<close>

record load_env =
  cached_img :: img_event
  gen :: gen_outcome
  gen_img :: img_event
  name_item :: item
  tts :: tts_outcome

text \<open>\<open>highlighted\<close> holds the word spans of the document that carry the class
  \<open>highlighted-word\<close>, \<open>name_spans\<close> the word spans under \<open>#name\<close>.\<close>

record app_state =
  masterFlashcardsData :: "card list"
  filteredFlashcardsData :: "nat list"
  currentIndex :: int
  isAudioPlaying :: bool
  awaitingDeleteConfirmation :: bool
  deleteConfirmationTimeoutId :: "nat option"
  audio_paused :: bool
  ontimeupdate :: "(nat \<times> word_time) option"
  onloadedmetadata :: "nat option"
  onended :: "nat option"
  sessions :: "session list"
  highlighted :: "nat set"
  name_spans :: "nat set"
  navDisabled :: bool
  message :: "(msg \<times> bool) option"
  timers :: "(nat \<times> nat) list"
  next_timer :: nat
  clock :: nat
  requests :: "request list"
  completed :: bool

definition initial_state :: app_state where
  "initial_state =
     \<lparr> masterFlashcardsData = [], filteredFlashcardsData = [], currentIndex = 0,
       isAudioPlaying = False, awaitingDeleteConfirmation = False,
       deleteConfirmationTimeoutId = None, audio_paused = True,
       ontimeupdate = None, onloadedmetadata = None, onended = None,
       sessions = [], highlighted = {}, name_spans = {}, navDisabled = False, message = None,
       timers = [], next_timer = 0, clock = 0, requests = [], completed = False \<rparr>"

subsection \<open>Double arithmetic\<close>

text \<open>A rounding takes the exact result of an operation to the double the engine returns.
  Rounding to nearest is monotone and keeps 0, and nothing more is asked of the parameter;
  \<open>exact_rounding\<close> rounds nothing. A result beyond the largest double (\<open>Infinity\<close>) has no
  counterpart: a rounding is total on the reals. The literal \<open>0.15\<close> is itself rounded.\<close>

typedef rounding = "{r :: real \<Rightarrow> real. mono r \<and> r 0 = 0}"
  morphisms rnd Abs_rounding
  by (rule exI [of _ "\<lambda>x. x"]) (simp add: mono_def)

setup_lifting type_definition_rounding

lift_definition exact_rounding :: rounding is "\<lambda>x. x"
  by (simp add: mono_def)

definition SYNC_OFFSET :: "rounding \<Rightarrow> real" where
  "SYNC_OFFSET rd = rnd rd (15 / 100)"

subsection \<open>Array reads\<close>

text \<open>\<open>xs[i]\<close> is \<open>undefined\<close> outside the array; \<open>None\<close> stands for it.\<close>

definition js_index :: "'a list \<Rightarrow> int \<Rightarrow> 'a option" where
  "js_index xs i = (if 0 \<le> i \<and> i < int (length xs) then Some (xs ! nat i) else None)"

definition deref :: "card list \<Rightarrow> nat \<Rightarrow> card option" where
  "deref m r = (if r < length m then Some (m ! r) else None)"

text \<open>\<open>filteredFlashcardsData[i]\<close>: the reference and the object it points to.\<close>

definition card_at :: "card list \<Rightarrow> nat list \<Rightarrow> int \<Rightarrow> (nat \<times> card) option" where
  "card_at m f i =
     (case js_index f i of
        None \<Rightarrow> None
      | Some r \<Rightarrow> (case deref m r of None \<Rightarrow> None | Some c \<Rightarrow> Some (r, c)))"

definition filtered_at :: "app_state \<Rightarrow> int \<Rightarrow> (nat \<times> card) option" where
  "filtered_at s i = card_at (masterFlashcardsData s) (filteredFlashcardsData s) i"

text \<open>\<open>masterFlashcardsData.filter(card => !card.learned)\<close>, as references.\<close>

definition not_learned_refs :: "card list \<Rightarrow> nat list" where
  "not_learned_refs m = filter (\<lambda>r. \<not> learned (m ! r)) [0..<length m]"

text \<open>The remainder operator \<open>%\<close> of JavaScript truncates towards zero.\<close>

definition js_rem :: "int \<Rightarrow> int \<Rightarrow> int" where
  "js_rem a b = sgn a * (\<bar>a\<bar> mod \<bar>b\<bar>)"

subsection \<open>Interface helpers\<close>

definition toggleNavigation :: "bool \<Rightarrow> app_state \<Rightarrow> app_state" where
  "toggleNavigation disabled s = s\<lparr>navDisabled := disabled\<rparr>"

definition showAppMessage :: "msg \<Rightarrow> bool \<Rightarrow> app_state \<Rightarrow> app_state" where
  "showAppMessage text isError s = s\<lparr>message := Some (text, isError)\<rparr>"

definition log_request :: "request \<Rightarrow> app_state \<Rightarrow> app_state" where
  "log_request r s = s\<lparr>requests := requests s @ [r]\<rparr>"

definition displayCompletionMessage :: "app_state \<Rightarrow> app_state" where
  "displayCompletionMessage s = s\<lparr>completed := True\<rparr>"

section \<open>Audio playback and word highlighting\<close>

text \<open>Lines 44--51 of \<open>playAudioFromApi\<close>: the running audio is paused, the time-progress
  handler is cleared and every \<open>highlighted-word\<close> marker of the document is removed. The
  \<open>onloadedmetadata\<close> and \<open>onended\<close> properties are not assigned here.\<close>

definition stop_previous :: "app_state \<Rightarrow> app_state" where
  "stop_previous s =
     s\<lparr>audio_paused := (isAudioPlaying s \<or> audio_paused s),
       isAudioPlaying := False,
       ontimeupdate := None,
       highlighted := {}\<rparr>"

text \<open>Lines 53--60: the lock is taken; a list item shows its own spinner, anything else the
  loading message.\<close>

definition announce_loading :: "item option \<Rightarrow> app_state \<Rightarrow> app_state" where
  "announce_loading itemElement s =
     (let s1 = toggleNavigation True s in
      case itemElement of
        None \<Rightarrow> showAppMessage Msg_loading_audio False s1
      | Some it \<Rightarrow> if tag_LI it then s1 else showAppMessage Msg_loading_audio False s1)"

text \<open>The \<open>catch\<close> block, lines 143--145.\<close>

definition tts_catch :: "app_state \<Rightarrow> app_state" where
  "tts_catch s = toggleNavigation False (showAppMessage Msg_tts_error True s)"

text \<open>The call up to its request, lines 44--78. The request body reads
  \<open>filteredFlashcardsData[currentIndex].category\<close> inside the \<open>try\<close>, so a missing current
  card is caught like any other failure, before the request; otherwise the request is sent
  and the call waits for the response.\<close>

definition play_request :: "string \<Rightarrow> item option \<Rightarrow> app_state \<Rightarrow> app_state" where
  "play_request text itemElement s =
     (let s1 = announce_loading itemElement (stop_previous s) in
      case filtered_at s1 (currentIndex s1) of
        None \<Rightarrow> tts_catch s1
      | Some rc \<Rightarrow> log_request (Req_synthesize_speech text) s1)"

text \<open>Lines 93--126, after a response with \<open>success\<close> and \<open>audio_url\<close>: assigning \<open>src\<close>
  makes the element load the new resource (which pauses it), the closure variables of the call
  are allocated, and \<open>onloadedmetadata\<close> is assigned when an element was given.\<close>

definition assign_source :: "item option \<Rightarrow> app_state \<Rightarrow> app_state" where
  "assign_source itemElement s =
     (let sid = length (sessions s);
          spans = (case itemElement of None \<Rightarrow> [] | Some it \<Rightarrow> word_spans it);
          s1 = s\<lparr>audio_paused := True,
                 sessions := sessions s @ [\<lparr>wordSpans = spans, lastHighlightedIndex = - 1\<rparr>]\<rparr>
      in case itemElement of None \<Rightarrow> s1 | Some it \<Rightarrow> s1\<lparr>onloadedmetadata := Some sid\<rparr>)"

text \<open>Lines 128--138 for the call whose closure is \<open>sid\<close>, once \<open>play()\<close> is settled:
  fulfilled, the flag is set and \<open>onended\<close> assigned; rejected, the \<open>catch\<close> block runs.\<close>

definition play_settled :: "nat \<Rightarrow> bool \<Rightarrow> app_state \<Rightarrow> app_state" where
  "play_settled sid played s =
     (if played
      then (showAppMessage Msg_playing False
              (s\<lparr>audio_paused := False, isAudioPlaying := True\<rparr>))\<lparr>onended := Some sid\<rparr>
      else tts_catch s)"

text \<open>Both steps with nothing between them.\<close>

definition start_playback :: "item option \<Rightarrow> bool \<Rightarrow> app_state \<Rightarrow> app_state" where
  "start_playback itemElement played s =
     play_settled (length (sessions s)) played (assign_source itemElement s)"

text \<open>Lines 80--141, from the arrival of the response on.\<close>

definition play_response :: "item option \<Rightarrow> tts_outcome \<Rightarrow> app_state \<Rightarrow> app_state" where
  "play_response itemElement out s =
     (case out of
        Tts_rejected \<Rightarrow> tts_catch s
      | Tts_not_ok \<Rightarrow> tts_catch s
      | Tts_bad_json \<Rightarrow> tts_catch s
      | Tts_no_url \<Rightarrow> tts_catch s
      | Tts_play_rejected \<Rightarrow> start_playback itemElement False s
      | Tts_playing \<Rightarrow> start_playback itemElement True s)"

text \<open>The whole call with nothing between its steps.\<close>

definition playAudioFromApi :: "string \<Rightarrow> item option \<Rightarrow> tts_outcome \<Rightarrow> app_state \<Rightarrow> app_state" where
  "playAudioFromApi text itemElement out s =
     (case filtered_at s (currentIndex s) of
        None \<Rightarrow> play_request text itemElement s
      | Some rc \<Rightarrow> play_response itemElement out (play_request text itemElement s))"

text \<open>Lines 107--109 of the \<open>onloadedmetadata\<close> handler: it returns when the duration is falsy
  (\<open>NaN\<close> or \<open>0\<close>) or there is no word span; otherwise \<open>timePerWord\<close> is the quotient, rounded.\<close>

fun timePerWord :: "rounding \<Rightarrow> duration \<Rightarrow> nat \<Rightarrow> word_time option" where
  "timePerWord rd Dur_NaN n = None"
| "timePerWord rd (Dur d) n =
     (if d = 0 \<or> n = 0 then None else Some (Finite_time (rnd rd (d / real n))))"
| "timePerWord rd Dur_Infinity n = (if n = 0 then None else Some Infinite_time)"

text \<open>Lines 112--113; the argument \<open>t\<close> is \<open>audioPlayer.currentTime\<close>. The sum is rounded,
  then the quotient; \<open>Math.floor\<close> is exact. A quotient by \<open>Infinity\<close> is 0. When
  \<open>timePerWord\<close> has underflowed to 0 the script divides by zero and gets \<open>Infinity\<close>, an
  index the model does not have: what is proved of the value of the index assumes that
  \<open>timePerWord\<close> is not 0.\<close>

fun currentWordIndex :: "rounding \<Rightarrow> word_time \<Rightarrow> real \<Rightarrow> int" where
  "currentWordIndex rd (Finite_time w) t = \<lfloor>rnd rd (rnd rd (t + SYNC_OFFSET rd) / w)\<rfloor>"
| "currentWordIndex rd Infinite_time t = 0"

definition fire_loadedmetadata :: "rounding \<Rightarrow> duration \<Rightarrow> app_state \<Rightarrow> app_state" where
  "fire_loadedmetadata rd audioDuration s =
     (case onloadedmetadata s of
        None \<Rightarrow> s
      | Some sid \<Rightarrow>
          if sid < length (sessions s)
          then (case timePerWord rd audioDuration (length (wordSpans (sessions s ! sid))) of
                  None \<Rightarrow> s
                | Some w \<Rightarrow> s\<lparr>ontimeupdate := Some (sid, w)\<rparr>)
          else s)"

text \<open>Lines 115--123, on the spans and the \<open>lastHighlightedIndex\<close> of the closure.\<close>

definition unmark_last :: "nat list \<Rightarrow> int \<Rightarrow> nat set \<Rightarrow> nat set" where
  "unmark_last spans lastIdx h =
     (if 0 \<le> lastIdx \<and> lastIdx < int (length spans) then h - {spans ! nat lastIdx} else h)"

definition mark_current :: "nat list \<Rightarrow> int \<Rightarrow> nat set \<Rightarrow> nat set" where
  "mark_current spans idx h =
     (if 0 \<le> idx \<and> idx < int (length spans) then insert (spans ! nat idx) h else h)"

definition timeupdate_handler ::
  "rounding \<Rightarrow> nat \<Rightarrow> word_time \<Rightarrow> real \<Rightarrow> app_state \<Rightarrow> app_state" where
  "timeupdate_handler rd sid w t s =
     (let sess = sessions s ! sid;
          idx = currentWordIndex rd w t
      in if idx \<noteq> lastHighlightedIndex sess
         then s\<lparr>highlighted :=
                  mark_current (wordSpans sess) idx
                    (unmark_last (wordSpans sess) (lastHighlightedIndex sess) (highlighted s)),
                sessions := (sessions s)[sid := sess\<lparr>lastHighlightedIndex := idx\<rparr>]\<rparr>
         else s)"

definition fire_timeupdate :: "rounding \<Rightarrow> real \<Rightarrow> app_state \<Rightarrow> app_state" where
  "fire_timeupdate rd t s =
     (case ontimeupdate s of
        None \<Rightarrow> s
      | Some (sid, w) \<Rightarrow>
          if sid < length (sessions s) then timeupdate_handler rd sid w t s else s)"

text \<open>Lines 132--138.\<close>

definition fire_ended :: "app_state \<Rightarrow> app_state" where
  "fire_ended s =
     (case onended s of
        None \<Rightarrow> s
      | Some sid \<Rightarrow>
          (toggleNavigation False (showAppMessage Msg_audio_ended False (s\<lparr>highlighted := {}\<rparr>)))
            \<lparr>isAudioPlaying := False\<rparr>)"

section \<open>Cards, images and the confirmation timer\<close>

text \<open>\<open>if (card.imagePath)\<close>: \<open>null\<close>, \<open>undefined\<close> and the empty string are falsy.\<close>

definition truthy_path :: "string option \<Rightarrow> bool" where
  "truthy_path p = (case p of None \<Rightarrow> False | Some x \<Rightarrow> x \<noteq> [])"

definition set_imagePath :: "nat \<Rightarrow> string option \<Rightarrow> app_state \<Rightarrow> app_state" where
  "set_imagePath r p s =
     s\<lparr>masterFlashcardsData :=
         (masterFlashcardsData s)[r := (masterFlashcardsData s ! r)\<lparr>imagePath := p\<rparr>]\<rparr>"

text \<open>Lines 290--328. The generated image gets an \<open>onload\<close> handler only. The \<open>catch\<close>
  callback calls \<open>errorPromise.catch\<close>; that is a method of the promise passed on a non-2xx
  response, but a rejected \<open>fetch\<close>, a body that is not JSON and an exception of the
  \<open>then\<close> callback hand it an \<open>Error\<close>, which has no such method, so the callback
  throws before it reports anything.\<close>

definition generateAndLoadImage :: "card \<Rightarrow> load_env \<Rightarrow> app_state \<Rightarrow> app_state" where
  "generateAndLoadImage c0 env s =
     (let s1 = log_request (Req_generate_image (card_id c0))
                 (showAppMessage Msg_generating False s) in
      case gen env of
        Gen_rejected \<Rightarrow> s1
      | Gen_bad_json \<Rightarrow> s1
      | Gen_not_ok \<Rightarrow> toggleNavigation False (showAppMessage Msg_ai_error True s1)
      | Gen_ok path \<Rightarrow>
          (case filtered_at s1 (currentIndex s1) of
             None \<Rightarrow> s1
           | Some (r, c) \<Rightarrow>
               (let s2 = set_imagePath r path s1 in
                case gen_img env of
                  Img_onload \<Rightarrow>
                    toggleNavigation False (showAppMessage Msg_image_generated False s2)
                | Img_onerror \<Rightarrow> s2)))"

text \<open>Armed timeouts are pairs of an identifier and a deadline on the clock (milliseconds).
  The only callback ever scheduled is the one of \<open>deleteImage\<close>.\<close>

definition clearTimeout :: "nat option \<Rightarrow> app_state \<Rightarrow> app_state" where
  "clearTimeout tid s =
     (case tid of None \<Rightarrow> s | Some i \<Rightarrow> s\<lparr>timers := filter (\<lambda>x. fst x \<noteq> i) (timers s)\<rparr>)"

definition setTimeout_confirm :: "nat \<Rightarrow> app_state \<Rightarrow> app_state" where
  "setTimeout_confirm delay s =
     s\<lparr>timers := timers s @ [(next_timer s, clock s + delay)],
       deleteConfirmationTimeoutId := Some (next_timer s),
       next_timer := Suc (next_timer s)\<rparr>"

text \<open>Lines 357--362, the callback.\<close>

definition timeout_callback :: "app_state \<Rightarrow> app_state" where
  "timeout_callback s =
     (if awaitingDeleteConfirmation s
      then showAppMessage Msg_confirm_cancelled False (s\<lparr>awaitingDeleteConfirmation := False\<rparr>)
      else s)"

text \<open>Time passes: every armed timeout whose deadline is reached fires and is gone.\<close>

definition elapse :: "nat \<Rightarrow> app_state \<Rightarrow> app_state" where
  "elapse d s =
     (let now = clock s + d;
          due = filter (\<lambda>x. snd x \<le> now) (timers s);
          s1 = s\<lparr>clock := now, timers := filter (\<lambda>x. \<not> snd x \<le> now) (timers s)\<rparr>
      in fold (\<lambda>x. timeout_callback) due s1)"

text \<open>Lines 239--288. \<open>renderCardName\<close> and \<open>renderFrontExamples\<close> replace every word span
  of the page, so no span of the document carries the marker afterwards. With a missing
  card the function stops in \<open>renderCardName\<close>, after the lock is taken and \<open>#name\<close> is
  emptied (line 201), before the example lines are touched.\<close>

definition loadCard :: "int \<Rightarrow> bool \<Rightarrow> load_env \<Rightarrow> app_state \<Rightarrow> app_state" where
  "loadCard index autoPlay env s =
     (if filteredFlashcardsData s = [] then displayCompletionMessage s
      else
        (let s1 = (clearTimeout (deleteConfirmationTimeoutId s)
                     (s\<lparr>audio_paused := (isAudioPlaying s \<or> audio_paused s),
                        awaitingDeleteConfirmation := False\<rparr>))\<lparr>currentIndex := index\<rparr>;
             s2 = showAppMessage Msg_loading_card False (toggleNavigation True s1)
         in case filtered_at s2 index of
              None \<Rightarrow> s2\<lparr>highlighted := highlighted s2 - name_spans s2, name_spans := {}\<rparr>
            | Some (r, c) \<Rightarrow>
                (let s3 = s2\<lparr>highlighted := {},
                             name_spans := set (word_spans (name_item env))\<rparr> in
                 if truthy_path (imagePath c)
                 then (case cached_img env of
                         Img_onload \<Rightarrow>
                           (let s4 = toggleNavigation False
                                       (showAppMessage Msg_card_ready False s3)
                            in if autoPlay
                               then playAudioFromApi (name c) (Some (name_item env)) (tts env) s4
                               else s4)
                       | Img_onerror \<Rightarrow> generateAndLoadImage c env s3)
                 else generateAndLoadImage c env s3)))"

text \<open>The \<open>catch\<close> blocks of \<open>deleteImage\<close> and \<open>markAsLearned\<close>.\<close>

definition error_catch :: "app_state \<Rightarrow> app_state" where
  "error_catch s = toggleNavigation False (showAppMessage Msg_error True s)"

text \<open>Lines 330--364.\<close>

definition deleteImage :: "fetch_status \<Rightarrow> load_env \<Rightarrow> app_state \<Rightarrow> app_state" where
  "deleteImage out env s =
     (if awaitingDeleteConfirmation s
      then
        (let s1 = toggleNavigation True
                    (showAppMessage Msg_deleting False
                       ((clearTimeout (deleteConfirmationTimeoutId s) s)
                          \<lparr>awaitingDeleteConfirmation := False\<rparr>))
         in case filtered_at s1 (currentIndex s1) of
              None \<Rightarrow> error_catch s1
            | Some (r, c) \<Rightarrow>
                (let s2 = log_request (Req_delete_image (card_id c)) s1 in
                 case out of
                   Fetch_rejected \<Rightarrow> error_catch s2
                 | Fetch_not_ok \<Rightarrow> error_catch s2
                 | Fetch_ok \<Rightarrow> loadCard (currentIndex s2) True env (set_imagePath r None s2)))
      else setTimeout_confirm 5000
             (showAppMessage Msg_confirm_delete True (s\<lparr>awaitingDeleteConfirmation := True\<rparr>)))"

section \<open>Learned status and navigation\<close>

text \<open>Lines 385--424. \<open>currentCard.id\<close> is read before the \<open>try\<close>; the assignment to
  \<open>masterFlashcardsData[masterIndex].learned\<close> is inside it.\<close>

definition markAsLearned :: "fetch_status \<Rightarrow> load_env \<Rightarrow> app_state \<Rightarrow> app_state" where
  "markAsLearned out env s =
     (if filteredFlashcardsData s = [] then s
      else
        (let s1 = showAppMessage Msg_marking False (toggleNavigation True s) in
         case filtered_at s1 (currentIndex s1) of
           None \<Rightarrow> s1
         | Some (r, currentCard) \<Rightarrow>
             (let masterIndex = card_id currentCard;
                  s2 = log_request (Req_update_status masterIndex True) s1 in
              case out of
                Fetch_rejected \<Rightarrow> error_catch s2
              | Fetch_not_ok \<Rightarrow> error_catch s2
              | Fetch_ok \<Rightarrow>
                  (case deref (masterFlashcardsData s2) masterIndex of
                     None \<Rightarrow> error_catch s2
                   | Some c \<Rightarrow>
                       (let m = (masterFlashcardsData s2)[masterIndex := c\<lparr>learned := True\<rparr>];
                            s3 = s2\<lparr>masterFlashcardsData := m,
                                   filteredFlashcardsData := not_learned_refs m\<rparr>;
                            n = int (length (filteredFlashcardsData s3));
                            nextIndex = (if currentIndex s3 \<ge> n then n - 1 else currentIndex s3)
                        in if n > 0 then loadCard (max 0 nextIndex) True env s3
                           else displayCompletionMessage s3)))))"

definition nextCard :: "load_env \<Rightarrow> app_state \<Rightarrow> app_state" where
  "nextCard env s =
     (let n = int (length (filteredFlashcardsData s)) in
      if n > 0 then loadCard (js_rem (currentIndex s + 1) n) True env s else s)"

definition prevCard :: "load_env \<Rightarrow> app_state \<Rightarrow> app_state" where
  "prevCard env s =
     (let n = int (length (filteredFlashcardsData s)) in
      if n > 0 then loadCard (js_rem (currentIndex s - 1 + n) n) True env s else s)"

text \<open>\<open>playPhonetic\<close> and \<open>playSingleExample\<close> read the current card before the call; without
  one they throw and nothing happens. The example text is an argument.\<close>

definition playPhonetic :: "item option \<Rightarrow> tts_outcome \<Rightarrow> app_state \<Rightarrow> app_state" where
  "playPhonetic nameElement out s =
     (case filtered_at s (currentIndex s) of
        None \<Rightarrow> s
      | Some (r, c) \<Rightarrow> playAudioFromApi (name c) nameElement out s)"

definition playSingleExample :: "string \<Rightarrow> item option \<Rightarrow> tts_outcome \<Rightarrow> app_state \<Rightarrow> app_state" where
  "playSingleExample text itemElement out s =
     (case filtered_at s (currentIndex s) of
        None \<Rightarrow> s
      | Some (r, c) \<Rightarrow> playAudioFromApi text itemElement out s)"

text \<open>Lines 464--524: \<open>data.map((card, index) => ({ ...card, id: index }))\<close> and the filter.
  The wiring of the phonetic-chart dialog that follows is left out.\<close>

definition assign_ids :: "card list \<Rightarrow> card list" where
  "assign_ids data = map (\<lambda>index. (data ! index)\<lparr>card_id := index\<rparr>) [0..<length data]"

definition loadData :: "card list data_outcome \<Rightarrow> load_env \<Rightarrow> app_state \<Rightarrow> app_state" where
  "loadData out env s =
     (let s1 = log_request Req_flashcards_data s in
      case out of
        Data_rejected \<Rightarrow> showAppMessage Msg_fatal_error True s1
      | Data_not_ok \<Rightarrow> showAppMessage Msg_fatal_error True s1
      | Data_bad_json \<Rightarrow> showAppMessage Msg_fatal_error True s1
      | Data_ok data \<Rightarrow>
          (let m = assign_ids data;
               s2 = s1\<lparr>masterFlashcardsData := m, filteredFlashcardsData := not_learned_refs m\<rparr>
           in if length (filteredFlashcardsData s2) > 0
              then loadCard (currentIndex s2) False env s2
              else displayCompletionMessage s2))"

section \<open>Sequences of events\<close>

text \<open>The handlers the page can run, each with what its environment answers. The steps of
  \<open>playAudioFromApi\<close> are events of their own, next to the calls that run it in one piece.\<close>

datatype op =
    Op_markAsLearned fetch_status load_env
  | Op_nextCard load_env
  | Op_prevCard load_env
  | Op_deleteImage fetch_status load_env
  | Op_elapse nat
  | Op_playPhonetic "item option" tts_outcome
  | Op_playSingleExample string "item option" tts_outcome
  | Op_play_request string "item option"
  | Op_play_response "item option" tts_outcome
  | Op_assign_source "item option"
  | Op_play_settled nat bool
  | Op_loadedmetadata rounding duration
  | Op_timeupdate rounding real
  | Op_ended

fun apply_op :: "op \<Rightarrow> app_state \<Rightarrow> app_state" where
  "apply_op (Op_markAsLearned out env) s = markAsLearned out env s"
| "apply_op (Op_nextCard env) s = nextCard env s"
| "apply_op (Op_prevCard env) s = prevCard env s"
| "apply_op (Op_deleteImage out env) s = deleteImage out env s"
| "apply_op (Op_elapse d) s = elapse d s"
| "apply_op (Op_playPhonetic el out) s = playPhonetic el out s"
| "apply_op (Op_playSingleExample text el out) s = playSingleExample text el out s"
| "apply_op (Op_play_request text el) s = play_request text el s"
| "apply_op (Op_play_response el out) s = play_response el out s"
| "apply_op (Op_assign_source el) s = assign_source el s"
| "apply_op (Op_play_settled sid played) s = play_settled sid played s"
| "apply_op (Op_loadedmetadata rd d) s = fire_loadedmetadata rd d s"
| "apply_op (Op_timeupdate rd t) s = fire_timeupdate rd t s"
| "apply_op Op_ended s = fire_ended s"

definition run :: "op list \<Rightarrow> app_state \<Rightarrow> app_state" where
  "run ops s = fold apply_op ops s"

section \<open>Predicates on states\<close>

text \<open>Two states hold the same collection when the filtered array, the \<open>learned\<close> flags and
  the ids agree. A collection is in order when the filtered array is the filter of the master
  array and every id is the position of its card.\<close>

definition same_collection :: "app_state \<Rightarrow> app_state \<Rightarrow> bool" where
  "same_collection s s' =
     (filteredFlashcardsData s' = filteredFlashcardsData s
      \<and> map learned (masterFlashcardsData s') = map learned (masterFlashcardsData s)
      \<and> map card_id (masterFlashcardsData s') = map card_id (masterFlashcardsData s))"

definition collection_ok :: "app_state \<Rightarrow> bool" where
  "collection_ok s =
     (filteredFlashcardsData s = not_learned_refs (masterFlashcardsData s)
      \<and> map card_id (masterFlashcardsData s) = [0..<length (masterFlashcardsData s)])"

text \<open>One playback session that nothing supersedes: the call of \<open>playAudioFromApi\<close> gets
  its audio and \<open>play()\<close> is fulfilled, the metadata arrives with duration \<open>d\<close>, and the
  time-progress notifications fire at the times \<open>ts\<close>, in that order.\<close>

definition uninterrupted_session ::
  "rounding \<Rightarrow> string \<Rightarrow> item \<Rightarrow> duration \<Rightarrow> real list \<Rightarrow> app_state \<Rightarrow> app_state" where
  "uninterrupted_session rd text it d ts s =
     fold (fire_timeupdate rd) ts
       (fire_loadedmetadata rd d (playAudioFromApi text (Some it) Tts_playing s))"




section \<open>Sample data\<close>

text \<open>Three cards, the second one on display, and an environment in which every request and
  every load succeeds.\<close>

definition card_A :: card where
  "card_A = \<lparr>card_id = 0, name = ''look up'', learned = False, imagePath = Some ''/img/a.png''\<rparr>"

definition card_B :: card where
  "card_B = \<lparr>card_id = 1, name = ''give in'', learned = False, imagePath = Some ''/img/b.png''\<rparr>"

definition card_C :: card where
  "card_C = \<lparr>card_id = 2, name = ''set off'', learned = False, imagePath = None\<rparr>"

definition name_element :: item where
  "name_element = \<lparr>tag_LI = False, word_spans = [100, 101]\<rparr>"

definition env_ok :: load_env where
  "env_ok = \<lparr>cached_img = Img_onload, gen = Gen_ok (Some ''/img/new.png''), gen_img = Img_onload,
              name_item = name_element, tts = Tts_playing\<rparr>"

definition three_cards :: app_state where
  "three_cards =
     initial_state\<lparr>masterFlashcardsData := [card_A, card_B, card_C],
                   filteredFlashcardsData := [0, 1, 2], currentIndex := 1\<rparr>"

text \<open>A state in which a session is playing: the name of the card on display was played, the
  metadata gave one second of audio and one notification fired at 0.2 seconds.\<close>

definition playing_state :: app_state where
  "playing_state =
     uninterrupted_session exact_rounding ''look up'' name_element (Dur 1) [1 / 5] three_cards"

text \<open>An example line of three words, and two calls that overlap: the name is requested, and
  while that request is pending the example line is requested, answered and starts playing;
  then the answer to the first request arrives, its audio plays, its metadata gives one
  second and a notification fires at 0.2 seconds.\<close>

definition example_element :: item where
  "example_element = \<lparr>tag_LI = True, word_spans = [200, 201, 202]\<rparr>"

definition overlapping_calls :: app_state where
  "overlapping_calls =
     fire_timeupdate exact_rounding (1 / 5)
       (fire_loadedmetadata exact_rounding (Dur 1)
          (play_response (Some name_element) Tts_playing
             (playAudioFromApi ''give in to it'' (Some example_element) Tts_playing
                (play_request ''look up'' (Some name_element) three_cards))))"

text \<open>Environments in which the generated image does not load, and in which the
  generate-image request is rejected.\<close>

definition env_generated_image_fails :: load_env where
  "env_generated_image_fails = env_ok\<lparr>gen_img := Img_onerror\<rparr>"

definition env_generate_rejected :: load_env where
  "env_generate_rejected = env_ok\<lparr>gen := Gen_rejected\<rparr>"

section \<open>Delete requests in the log\<close>

fun is_delete_request :: "request \<Rightarrow> bool" where
  "is_delete_request (Req_delete_image i) = True"
| "is_delete_request r = False"

definition delete_requests :: "app_state \<Rightarrow> request list" where
  "delete_requests s = filter is_delete_request (requests s)"

section \<open>Reading the current card\<close>

lemma filtered_at_update [simp]:
  "filtered_at (currentIndex_update f0 s) = filtered_at s"
  "filtered_at (isAudioPlaying_update f1 s) = filtered_at s"
  "filtered_at (awaitingDeleteConfirmation_update f2 s) = filtered_at s"
  "filtered_at (deleteConfirmationTimeoutId_update f3 s) = filtered_at s"
  "filtered_at (audio_paused_update f4 s) = filtered_at s"
  "filtered_at (ontimeupdate_update f5 s) = filtered_at s"
  "filtered_at (onloadedmetadata_update f6 s) = filtered_at s"
  "filtered_at (onended_update f7 s) = filtered_at s"
  "filtered_at (sessions_update f8 s) = filtered_at s"
  "filtered_at (highlighted_update f9 s) = filtered_at s"
  "filtered_at (navDisabled_update f10 s) = filtered_at s"
  "filtered_at (message_update f11 s) = filtered_at s"
  "filtered_at (timers_update f12 s) = filtered_at s"
  "filtered_at (next_timer_update f13 s) = filtered_at s"
  "filtered_at (clock_update f14 s) = filtered_at s"
  "filtered_at (requests_update f15 s) = filtered_at s"
  "filtered_at (completed_update f16 s) = filtered_at s"
  "filtered_at (name_spans_update f17 s) = filtered_at s"
  by (simp_all add: filtered_at_def fun_eq_iff)

lemma filtered_at_SomeD:
  "filtered_at s i = Some (r, c) \<Longrightarrow>
     filteredFlashcardsData s \<noteq> [] \<and> 0 \<le> i \<and> i < int (length (filteredFlashcardsData s))
     \<and> r = filteredFlashcardsData s ! nat i \<and> r < length (masterFlashcardsData s)
     \<and> c = masterFlashcardsData s ! r"
  by (auto simp: filtered_at_def card_at_def js_index_def deref_def split: if_splits option.splits)

text \<open>The calls in one piece, as equations on the state.\<close>

lemma start_playback_unfold:
  "start_playback itemElement played s =
     (let sid = length (sessions s);
          spans = (case itemElement of None \<Rightarrow> [] | Some it \<Rightarrow> word_spans it);
          s1 = s\<lparr>audio_paused := True,
                 sessions := sessions s @ [\<lparr>wordSpans = spans, lastHighlightedIndex = - 1\<rparr>]\<rparr>;
          s2 = (case itemElement of None \<Rightarrow> s1 | Some it \<Rightarrow> s1\<lparr>onloadedmetadata := Some sid\<rparr>)
      in if played
         then (showAppMessage Msg_playing False
                 (s2\<lparr>audio_paused := False, isAudioPlaying := True\<rparr>))\<lparr>onended := Some sid\<rparr>
         else tts_catch s2)"
  by (cases itemElement) (simp_all add: start_playback_def play_settled_def assign_source_def Let_def)

lemma playAudioFromApi_unfold:
  "playAudioFromApi text itemElement out s =
     (let s1 = announce_loading itemElement (stop_previous s) in
      case filtered_at s1 (currentIndex s1) of
        None \<Rightarrow> tts_catch s1
      | Some rc \<Rightarrow>
          (let s2 = log_request (Req_synthesize_speech text) s1 in
           case out of
             Tts_rejected \<Rightarrow> tts_catch s2
           | Tts_not_ok \<Rightarrow> tts_catch s2
           | Tts_bad_json \<Rightarrow> tts_catch s2
           | Tts_no_url \<Rightarrow> tts_catch s2
           | Tts_play_rejected \<Rightarrow> start_playback itemElement False s2
           | Tts_playing \<Rightarrow> start_playback itemElement True s2))"
proof -
  have c: "currentIndex (announce_loading itemElement (stop_previous s)) = currentIndex s"
    and f: "filtered_at (announce_loading itemElement (stop_previous s)) = filtered_at s"
    by (simp_all add: announce_loading_def stop_previous_def toggleNavigation_def
          showAppMessage_def Let_def split: option.splits)
  show ?thesis
    by (cases "filtered_at s (currentIndex s)")
       (simp_all add: playAudioFromApi_def play_request_def play_response_def c f Let_def)
qed

section \<open>Marking a card as learned\<close>

text \<open>C10. With an empty active collection \<open>markAsLearned\<close> returns at once: the whole
  state, and so the master collection, the active collection, the cursor, the interaction
  lock and the log of backend requests, is what it was.\<close>

theorem markAsLearned_empty_noop:
  "filteredFlashcardsData s = [] \<Longrightarrow> markAsLearned out env s = s"
  by (simp add: markAsLearned_def)

theorem markAsLearned_empty_noop_witness:
  "filteredFlashcardsData initial_state = [] \<and> markAsLearned Fetch_ok env_ok initial_state = initial_state"
  using markAsLearned_empty_noop [of initial_state Fetch_ok env_ok]
  by (simp add: initial_state_def)

text \<open>C5. When the update-status request is rejected or answered with a non-2xx status, the
  master collection, the active collection and the cursor are unchanged; and whenever there was
  a current card, so that the request was sent at all, the error message is shown and the
  interaction lock is released.\<close>

theorem markAsLearned_failure_keeps_state:
  assumes "out \<noteq> Fetch_ok"
  shows "masterFlashcardsData (markAsLearned out env s) = masterFlashcardsData s
       \<and> filteredFlashcardsData (markAsLearned out env s) = filteredFlashcardsData s
       \<and> currentIndex (markAsLearned out env s) = currentIndex s
       \<and> (filtered_at s (currentIndex s) \<noteq> None \<longrightarrow>
            message (markAsLearned out env s) = Some (Msg_error, True)
          \<and> navDisabled (markAsLearned out env s) = False)"
  using assms
  by (cases out)
     (auto simp: markAsLearned_def error_catch_def toggleNavigation_def showAppMessage_def
        log_request_def Let_def dest: filtered_at_SomeD split: option.splits)

theorem markAsLearned_failure_keeps_state_witness:
  "masterFlashcardsData (markAsLearned Fetch_not_ok env_ok three_cards) = [card_A, card_B, card_C]
   \<and> filteredFlashcardsData (markAsLearned Fetch_not_ok env_ok three_cards) = [0, 1, 2]
   \<and> currentIndex (markAsLearned Fetch_not_ok env_ok three_cards) = 1
   \<and> message (markAsLearned Fetch_not_ok env_ok three_cards) = Some (Msg_error, True)
   \<and> navDisabled (markAsLearned Fetch_not_ok env_ok three_cards) = False"
  using markAsLearned_failure_keeps_state [of Fetch_not_ok env_ok three_cards]
  by (simp add: three_cards_def initial_state_def filtered_at_def card_at_def js_index_def deref_def)


section \<open>What the image and audio paths leave alone\<close>

text \<open>Loading a card, generating an image and playing audio never touch the filtered array,
  a \<open>learned\<close> flag or an \<open>id\<close>; only \<open>imagePath\<close> of one card may change.\<close>

lemma map_field_update:
  assumes "f y = f (xs ! i)"
  shows "map f (xs[i := y]) = map f xs"
proof (cases "i < length xs")
  case True
  with assms show ?thesis by (simp add: map_update list_update_same_conv)
next
  case False
  then show ?thesis by (simp add: list_update_beyond not_less)
qed

lemma set_imagePath_frame [simp]:
  "filteredFlashcardsData (set_imagePath r p s) = filteredFlashcardsData s"
  "currentIndex (set_imagePath r p s) = currentIndex s"
  "map learned (masterFlashcardsData (set_imagePath r p s)) = map learned (masterFlashcardsData s)"
  "map card_id (masterFlashcardsData (set_imagePath r p s)) = map card_id (masterFlashcardsData s)"
  by (simp_all add: set_imagePath_def map_field_update)

lemma playAudioFromApi_frame [simp]:
  "filteredFlashcardsData (playAudioFromApi text el out s) = filteredFlashcardsData s"
  "masterFlashcardsData (playAudioFromApi text el out s) = masterFlashcardsData s"
  "currentIndex (playAudioFromApi text el out s) = currentIndex s"
  by (auto simp: playAudioFromApi_unfold start_playback_unfold tts_catch_def announce_loading_def
        stop_previous_def toggleNavigation_def showAppMessage_def log_request_def Let_def
      split: option.splits tts_outcome.splits)

lemma generateAndLoadImage_frame [simp]:
  "filteredFlashcardsData (generateAndLoadImage c env s) = filteredFlashcardsData s"
  "currentIndex (generateAndLoadImage c env s) = currentIndex s"
  "map learned (masterFlashcardsData (generateAndLoadImage c env s)) = map learned (masterFlashcardsData s)"
  "map card_id (masterFlashcardsData (generateAndLoadImage c env s)) = map card_id (masterFlashcardsData s)"
  by (auto simp: generateAndLoadImage_def toggleNavigation_def showAppMessage_def log_request_def
        Let_def split: option.splits gen_outcome.splits img_event.splits)

lemma clearTimeout_frame [simp]:
  "filteredFlashcardsData (clearTimeout t s) = filteredFlashcardsData s"
  "masterFlashcardsData (clearTimeout t s) = masterFlashcardsData s"
  "currentIndex (clearTimeout t s) = currentIndex s"
  by (simp_all add: clearTimeout_def split: option.splits)

lemma loadCard_frame [simp]:
  "filteredFlashcardsData (loadCard i a env s) = filteredFlashcardsData s"
  "map learned (masterFlashcardsData (loadCard i a env s)) = map learned (masterFlashcardsData s)"
  "map card_id (masterFlashcardsData (loadCard i a env s)) = map card_id (masterFlashcardsData s)"
  by (auto simp: loadCard_def displayCompletionMessage_def toggleNavigation_def showAppMessage_def
        Let_def split: option.splits img_event.splits)

lemma loadCard_currentIndex:
  "currentIndex (loadCard i a env s) = (if filteredFlashcardsData s = [] then currentIndex s else i)"
  by (auto simp: loadCard_def displayCompletionMessage_def toggleNavigation_def showAppMessage_def
        Let_def split: option.splits img_event.splits)

lemma loadCard_completed:
  "completed (loadCard i a env s) = (filteredFlashcardsData s = [] \<or> completed s)"
  by (auto simp: loadCard_def displayCompletionMessage_def toggleNavigation_def showAppMessage_def
        generateAndLoadImage_def log_request_def set_imagePath_def clearTimeout_def
        playAudioFromApi_unfold start_playback_unfold tts_catch_def announce_loading_def stop_previous_def
        Let_def split: option.splits img_event.splits gen_outcome.splits tts_outcome.splits)


section \<open>The filter after a card is marked\<close>

lemma not_learned_refs_mark:
  "not_learned_refs (m[r := c\<lparr>learned := True\<rparr>]) = filter (\<lambda>x. x \<noteq> r) (not_learned_refs m)"
proof -
  have "(\<not> learned (m[r := c\<lparr>learned := True\<rparr>] ! x)) = (x \<noteq> r \<and> \<not> learned (m ! x))"
    if "x < length m" for x
    using that by (cases "x = r") simp_all
  then show ?thesis
    unfolding not_learned_refs_def by (auto intro!: filter_cong)
qed

lemma distinct_not_learned_refs: "distinct (not_learned_refs m)"
  by (simp add: not_learned_refs_def)

lemma set_not_learned_refs:
  "set (not_learned_refs m) = {r. r < length m \<and> \<not> learned (m ! r)}"
  by (auto simp: not_learned_refs_def)

lemma length_filter_neq:
  assumes "distinct xs" "r \<in> set xs"
  shows "length (filter (\<lambda>x. x \<noteq> r) xs) = length xs - 1"
proof -
  have "filter (\<lambda>x. x \<noteq> r) xs = removeAll r xs"
    by (induction xs) auto
  then have "filter (\<lambda>x. x \<noteq> r) xs = remove1 r xs"
    using assms(1) by (simp add: distinct_remove1_removeAll)
  then show ?thesis using assms(2) by (simp add: length_remove1)
qed

text \<open>C4. In a state where the active collection is the filter of the master collection, ids
  are positions and the cursor is valid, a successful \<open>markAsLearned\<close> leaves an active
  collection one shorter that no longer holds the id of the card marked; with cards left,
  the cursor is the minimum of the old cursor and the old size minus two and a card is
  loaded; with none left, the completion display is entered and no card is loaded (the
  cursor and the message of the operation stay).\<close>

theorem markAsLearned_success:
  assumes inv: "filteredFlashcardsData s = not_learned_refs (masterFlashcardsData s)"
    and ids: "map card_id (masterFlashcardsData s) = [0..<length (masterFlashcardsData s)]"
    and cur: "0 \<le> currentIndex s" "currentIndex s < int (length (filteredFlashcardsData s))"
  shows "length (filteredFlashcardsData (markAsLearned Fetch_ok env s))
           = length (filteredFlashcardsData s) - 1
       \<and> card_id (masterFlashcardsData s ! (filteredFlashcardsData s ! nat (currentIndex s)))
           \<notin> set (map (\<lambda>r. card_id (masterFlashcardsData (markAsLearned Fetch_ok env s) ! r))
                      (filteredFlashcardsData (markAsLearned Fetch_ok env s)))
       \<and> (if length (filteredFlashcardsData s) - 1 > 0
          then currentIndex (markAsLearned Fetch_ok env s)
                 = min (currentIndex s) (int (length (filteredFlashcardsData s)) - 2)
             \<and> completed (markAsLearned Fetch_ok env s) = completed s
          else completed (markAsLearned Fetch_ok env s)
             \<and> currentIndex (markAsLearned Fetch_ok env s) = currentIndex s
             \<and> message (markAsLearned Fetch_ok env s) = Some (Msg_marking, False))"
proof -
  let ?m = "masterFlashcardsData s" and ?f = "filteredFlashcardsData s"
  let ?r = "?f ! nat (currentIndex s)"
  have rin: "?r \<in> set (not_learned_refs ?m)"
    using cur inv by (metis nat_less_iff nth_mem)
  then have rlt: "?r < length ?m" and nl: "\<not> learned (?m ! ?r)"
    by (simp_all add: set_not_learned_refs)
  have idr: "card_id (?m ! ?r) = ?r"
    using ids rlt by (metis nth_map nth_upt add_0)
  have fa: "filtered_at s (currentIndex s) = Some (?r, ?m ! ?r)"
    using cur rlt by (simp add: filtered_at_def card_at_def js_index_def deref_def)
  have ne: "?f \<noteq> []" using cur by auto
  let ?m' = "?m[?r := (?m ! ?r)\<lparr>learned := True\<rparr>]"
  let ?f' = "not_learned_refs ?m'"
  have f': "?f' = filter (\<lambda>x. x \<noteq> ?r) ?f"
    by (simp add: not_learned_refs_mark inv)
  have len: "length ?f' = length ?f - 1"
    unfolding f' using rin inv by (simp add: length_filter_neq distinct_not_learned_refs)
  let ?s3 = "(log_request (Req_update_status ?r True)
               (showAppMessage Msg_marking False (toggleNavigation True s)))
             \<lparr>masterFlashcardsData := ?m', filteredFlashcardsData := ?f'\<rparr>"
  let ?n = "int (length ?f')"
  have ml: "markAsLearned Fetch_ok env s =
       (if ?n > 0
        then loadCard (max 0 (if currentIndex s \<ge> ?n then ?n - 1 else currentIndex s)) True env ?s3
        else displayCompletionMessage ?s3)"
    using ne fa rlt idr
    by (simp add: markAsLearned_def Let_def deref_def log_request_def showAppMessage_def
          toggleNavigation_def)
  have ids': "map card_id ?m' = [0..<length ?m']"
    using ids by (simp add: map_field_update)
  show ?thesis
  proof (cases "?n > 0")
    case True
    then have ml': "markAsLearned Fetch_ok env s =
        loadCard (max 0 (if currentIndex s \<ge> ?n then ?n - 1 else currentIndex s)) True env ?s3"
      using ml by simp
    have fs3: "filteredFlashcardsData ?s3 = ?f'" by (simp add: log_request_def)
    have fin: "filteredFlashcardsData (markAsLearned Fetch_ok env s) = ?f'"
      unfolding ml' by (simp add: log_request_def)
    have idfin: "map card_id (masterFlashcardsData (markAsLearned Fetch_ok env s)) = [0..<length ?m']"
      unfolding ml' using ids' by (simp add: log_request_def)
    have "\<And>x. x \<in> set ?f' \<Longrightarrow> card_id (masterFlashcardsData (markAsLearned Fetch_ok env s) ! x) = x"
    proof -
      fix x assume "x \<in> set ?f'"
      then have "x < length ?m'" by (simp add: set_not_learned_refs)
      moreover have "length (masterFlashcardsData (markAsLearned Fetch_ok env s)) = length ?m'"
        using idfin by (metis length_map length_upt diff_zero)
      ultimately show "card_id (masterFlashcardsData (markAsLearned Fetch_ok env s) ! x) = x"
        using idfin by (metis nth_map nth_upt add_0)
    qed
    then have "map (\<lambda>r. card_id (masterFlashcardsData (markAsLearned Fetch_ok env s) ! r)) ?f' = ?f'"
      by (simp add: map_idI)
    then have notin: "card_id (?m ! ?r)
           \<notin> set (map (\<lambda>r. card_id (masterFlashcardsData (markAsLearned Fetch_ok env s) ! r))
                      (filteredFlashcardsData (markAsLearned Fetch_ok env s)))"
      unfolding fin idr by (simp add: f')
    have ci: "currentIndex (markAsLearned Fetch_ok env s)
                 = min (currentIndex s) (int (length ?f) - 2)"
      unfolding ml' using True len cur fs3
      by (auto simp: loadCard_currentIndex)
    have co: "completed (markAsLearned Fetch_ok env s) = completed s"
      unfolding ml' using True fs3 by (auto simp: loadCard_completed log_request_def
          showAppMessage_def toggleNavigation_def)
    from True len fin notin ci co show ?thesis by simp
  next
    case False
    then have ml': "markAsLearned Fetch_ok env s = displayCompletionMessage ?s3"
      using ml by simp
    from False have emp: "?f' = []" by simp
    show ?thesis
      unfolding ml' using False len emp
      by (simp add: displayCompletionMessage_def log_request_def showAppMessage_def
            toggleNavigation_def)
  qed
qed

theorem markAsLearned_success_witness:
  "filteredFlashcardsData three_cards = not_learned_refs (masterFlashcardsData three_cards)
   \<and> map card_id (masterFlashcardsData three_cards) = [0..<length (masterFlashcardsData three_cards)]
   \<and> 0 \<le> currentIndex three_cards
   \<and> currentIndex three_cards < int (length (filteredFlashcardsData three_cards))
   \<and> length (filteredFlashcardsData (markAsLearned Fetch_ok env_ok three_cards)) = 2
   \<and> currentIndex (markAsLearned Fetch_ok env_ok three_cards) = 1"
proof -
  have h1: "filteredFlashcardsData three_cards = not_learned_refs (masterFlashcardsData three_cards)"
    by (simp add: three_cards_def initial_state_def not_learned_refs_def card_A_def card_B_def
          card_C_def upt_rec)
  have h2: "map card_id (masterFlashcardsData three_cards)
              = [0..<length (masterFlashcardsData three_cards)]"
    by (simp add: three_cards_def initial_state_def card_A_def card_B_def card_C_def upt_rec)
  have h3: "0 \<le> currentIndex three_cards"
    by (simp add: three_cards_def initial_state_def)
  have h4: "currentIndex three_cards < int (length (filteredFlashcardsData three_cards))"
    by (simp add: three_cards_def initial_state_def)
  have v: "length (filteredFlashcardsData three_cards) = 3" "currentIndex three_cards = 1"
    by (simp_all add: three_cards_def initial_state_def)
  have v': "length (not_learned_refs (masterFlashcardsData three_cards)) = 3"
    using h1 v(1) by simp
  from markAsLearned_success [OF h1 h2 h3 h4, of env_ok] h1 h2 h3 h4 show ?thesis
    by (simp add: v v')
qed


text \<open>The scenario of three cards with the second on display: marking it leaves the first and
  the third, the cursor stays at 1 (now the third card), and the next card wraps to 0.\<close>

lemma three_cards_scenario:
  "filteredFlashcardsData (markAsLearned Fetch_ok env_ok three_cards) = [0, 2]
   \<and> currentIndex (markAsLearned Fetch_ok env_ok three_cards) = 1
   \<and> currentIndex (nextCard env_ok (markAsLearned Fetch_ok env_ok three_cards)) = 0"
  by code_simp

section \<open>The active collection is the filter of the master collection\<close>

lemma not_learned_refs_cong:
  assumes "map learned m' = map learned m"
  shows "not_learned_refs m' = not_learned_refs m"
proof -
  have len: "length m' = length m"
    using assms by (metis length_map)
  have "learned (m' ! r) = learned (m ! r)" if "r < length m" for r
    using that assms len by (metis nth_map)
  then show ?thesis
    unfolding not_learned_refs_def len by (auto intro!: filter_cong)
qed

lemma collection_ok_same:
  assumes "collection_ok s" "same_collection s s'"
  shows "collection_ok s'"
proof -
  have "length (masterFlashcardsData s') = length (masterFlashcardsData s)"
    using assms(2) unfolding same_collection_def by (metis length_map)
  then show ?thesis
    using assms not_learned_refs_cong [of "masterFlashcardsData s'" "masterFlashcardsData s"]
    by (simp add: collection_ok_def same_collection_def)
qed

lemma same_collection_loadCard: "same_collection s (loadCard i a env s)"
  by (simp add: same_collection_def)

lemma same_collection_play: "same_collection s (playAudioFromApi text el out s)"
  by (simp add: same_collection_def)

lemma same_collection_timeout: "same_collection s (timeout_callback s)"
  by (simp add: same_collection_def timeout_callback_def showAppMessage_def)

lemma fold_timeout_frame:
  "filteredFlashcardsData (fold (\<lambda>x. timeout_callback) xs s) = filteredFlashcardsData s
   \<and> masterFlashcardsData (fold (\<lambda>x. timeout_callback) xs s) = masterFlashcardsData s"
  by (induction xs arbitrary: s) (simp_all add: timeout_callback_def showAppMessage_def)

lemma same_collection_elapse: "same_collection s (elapse d s)"
  by (simp add: same_collection_def elapse_def Let_def fold_timeout_frame)

lemma same_collection_deleteImage: "same_collection s (deleteImage out env s)"
  by (auto simp: same_collection_def deleteImage_def Let_def error_catch_def setTimeout_confirm_def
        toggleNavigation_def showAppMessage_def log_request_def
      split: option.splits fetch_status.splits)

lemma same_collection_next: "same_collection s (nextCard env s)"
  by (simp add: same_collection_def nextCard_def Let_def)

lemma same_collection_prev: "same_collection s (prevCard env s)"
  by (simp add: same_collection_def prevCard_def Let_def)

lemma same_collection_playPhonetic: "same_collection s (playPhonetic el out s)"
  by (simp add: same_collection_def playPhonetic_def split: option.splits)

lemma same_collection_playSingleExample: "same_collection s (playSingleExample text el out s)"
  by (simp add: same_collection_def playSingleExample_def split: option.splits)

lemma same_collection_play_steps:
  "same_collection s (play_request text el s)"
  "same_collection s (play_response el out s)"
  "same_collection s (assign_source el s)"
  "same_collection s (play_settled sid played s)"
  by (auto simp: same_collection_def play_request_def play_response_def start_playback_unfold
        assign_source_def play_settled_def tts_catch_def announce_loading_def stop_previous_def
        toggleNavigation_def showAppMessage_def log_request_def Let_def
      split: option.splits tts_outcome.splits)

lemma same_collection_loadedmetadata: "same_collection s (fire_loadedmetadata rd d s)"
  by (simp add: same_collection_def fire_loadedmetadata_def split: option.splits)

lemma same_collection_timeupdate: "same_collection s (fire_timeupdate rd t s)"
  by (simp add: same_collection_def fire_timeupdate_def timeupdate_handler_def Let_def
      split: option.splits prod.splits)

lemma same_collection_ended: "same_collection s (fire_ended s)"
  by (simp add: same_collection_def fire_ended_def toggleNavigation_def showAppMessage_def
      split: option.splits)


lemma collection_ok_refiltered:
  assumes "map card_id m = [0..<length m]"
    and "filteredFlashcardsData s' = not_learned_refs m"
    and "map learned (masterFlashcardsData s') = map learned m"
    and "map card_id (masterFlashcardsData s') = map card_id m"
  shows "collection_ok s'"
proof -
  have "length (masterFlashcardsData s') = length m"
    using assms(3) by (metis length_map)
  then show ?thesis
    using assms not_learned_refs_cong [of "masterFlashcardsData s'" m]
    by (simp add: collection_ok_def)
qed

lemma collection_ok_markAsLearned:
  assumes "collection_ok s"
  shows "collection_ok (markAsLearned out env s)"
proof (cases "filtered_at s (currentIndex s)")
  case None
  then have "same_collection s (markAsLearned out env s)"
    by (simp add: same_collection_def markAsLearned_def Let_def showAppMessage_def
          toggleNavigation_def)
  with assms show ?thesis by (rule collection_ok_same)
next
  case (Some rc)
  obtain r c where rc: "rc = (r, c)" by (cases rc)
  show ?thesis
  proof (cases "out = Fetch_ok \<and> card_id c < length (masterFlashcardsData s)")
    case False
    then have "same_collection s (markAsLearned out env s)"
      using Some rc
      by (cases out)
         (auto simp: same_collection_def markAsLearned_def Let_def showAppMessage_def
            toggleNavigation_def log_request_def error_catch_def deref_def)
    with assms show ?thesis by (rule collection_ok_same)
  next
    case True
    let ?m = "(masterFlashcardsData s)[card_id c :=
                (masterFlashcardsData s ! card_id c)\<lparr>learned := True\<rparr>]"
    have ids: "map card_id ?m = [0..<length ?m]"
      using assms by (simp add: collection_ok_def map_field_update)
    have ne: "filteredFlashcardsData s \<noteq> []"
      using Some rc by (auto dest: filtered_at_SomeD)
    show ?thesis
    proof (rule collection_ok_refiltered [OF ids])
      show "filteredFlashcardsData (markAsLearned out env s) = not_learned_refs ?m"
        using True Some rc ne
        by (simp add: markAsLearned_def Let_def showAppMessage_def toggleNavigation_def
              log_request_def deref_def displayCompletionMessage_def)
      show "map learned (masterFlashcardsData (markAsLearned out env s)) = map learned ?m"
        using True Some rc ne
        by (simp add: markAsLearned_def Let_def showAppMessage_def toggleNavigation_def
              log_request_def deref_def displayCompletionMessage_def)
      show "map card_id (masterFlashcardsData (markAsLearned out env s)) = map card_id ?m"
        using True Some rc ne
        by (simp add: markAsLearned_def Let_def showAppMessage_def toggleNavigation_def
              log_request_def deref_def displayCompletionMessage_def)
    qed
  qed
qed

lemma collection_ok_apply_op:
  "collection_ok s \<Longrightarrow> collection_ok (apply_op x s)"
proof (cases x)
  case (Op_markAsLearned out env)
  assume "collection_ok s"
  then show ?thesis unfolding Op_markAsLearned by (simp add: collection_ok_markAsLearned)
qed (auto intro: collection_ok_same same_collection_next same_collection_prev
       same_collection_deleteImage same_collection_elapse same_collection_playPhonetic
       same_collection_playSingleExample same_collection_play_steps
       same_collection_loadedmetadata same_collection_timeupdate same_collection_ended)

lemma collection_ok_run:
  "collection_ok s \<Longrightarrow> collection_ok (run ops s)"
  unfolding run_def
  by (induction ops arbitrary: s) (simp_all add: collection_ok_apply_op)

lemma assign_ids_ids: "map card_id (assign_ids data) = [0..<length (assign_ids data)]"
  by (simp add: assign_ids_def map_idI)

lemma collection_ok_initial: "collection_ok initial_state"
  by (simp add: collection_ok_def initial_state_def not_learned_refs_def)

lemma collection_ok_loadData:
  "collection_ok (loadData out env initial_state)"
proof (cases out)
  case (Data_ok data)
  show ?thesis
  proof (rule collection_ok_refiltered [OF assign_ids_ids [of data]])
    show "filteredFlashcardsData (loadData out env initial_state)
            = not_learned_refs (assign_ids data)"
      unfolding Data_ok
      by (simp add: loadData_def Let_def log_request_def displayCompletionMessage_def)
    show "map learned (masterFlashcardsData (loadData out env initial_state))
            = map learned (assign_ids data)"
      unfolding Data_ok
      by (simp add: loadData_def Let_def log_request_def displayCompletionMessage_def)
    show "map card_id (masterFlashcardsData (loadData out env initial_state))
            = map card_id (assign_ids data)"
      unfolding Data_ok
      by (simp add: loadData_def Let_def log_request_def displayCompletionMessage_def)
  qed
qed (simp_all add: loadData_def log_request_def showAppMessage_def collection_ok_def
       initial_state_def not_learned_refs_def)

lemma cards_of_not_learned_refs:
  "map ((!) m) (not_learned_refs m) = filter (\<lambda>c. \<not> learned c) m"
proof -
  have "filter (\<lambda>c. \<not> learned c) (map ((!) m) [0..<length m])
          = map ((!) m) (filter ((\<lambda>c. \<not> learned c) \<circ> ((!) m)) [0..<length m])"
    by (rule filter_map)
  then show ?thesis
    by (simp add: not_learned_refs_def map_nth comp_def)
qed

lemma ids_of_refs:
  assumes "map card_id m = [0..<length m]"
  shows "map (\<lambda>r. card_id (m ! r)) (not_learned_refs m) = not_learned_refs m"
proof -
  have "card_id (m ! r) = r" if "r < length m" for r
    using that assms by (metis nth_map nth_upt add_0)
  then show ?thesis
    by (intro map_idI) (simp add: set_not_learned_refs)
qed

lemma sorted_not_learned_refs: "sorted_wrt (<) (not_learned_refs m)"
  unfolding not_learned_refs_def by (intro sorted_wrt_filter sorted_wrt_upt)

text \<open>C2. After the initial load, whatever its outcome, and any sequence of events
  (\<open>markAsLearned\<close> with any outcome of its request, navigation, image deletion, timeouts,
  playback) the filtered array is the filter of the master array by \<open>!learned\<close>: the
  references are those of the not-learned cards in master order, the cards they point to are
  exactly the not-learned cards in master order, and their ids are strictly increasing, so
  none is repeated.\<close>

theorem active_is_stable_filter:
  "filteredFlashcardsData (run ops (loadData out env initial_state))
     = not_learned_refs (masterFlashcardsData (run ops (loadData out env initial_state)))
   \<and> map ((!) (masterFlashcardsData (run ops (loadData out env initial_state))))
        (filteredFlashcardsData (run ops (loadData out env initial_state)))
     = filter (\<lambda>c. \<not> learned c) (masterFlashcardsData (run ops (loadData out env initial_state)))
   \<and> sorted_wrt (<)
        (map (\<lambda>r. card_id (masterFlashcardsData (run ops (loadData out env initial_state)) ! r))
           (filteredFlashcardsData (run ops (loadData out env initial_state))))"
proof -
  let ?s = "run ops (loadData out env initial_state)"
  have ok: "collection_ok ?s"
    by (intro collection_ok_run collection_ok_loadData)
  then have f: "filteredFlashcardsData ?s = not_learned_refs (masterFlashcardsData ?s)"
    and ids: "map card_id (masterFlashcardsData ?s) = [0..<length (masterFlashcardsData ?s)]"
    by (simp_all add: collection_ok_def)
  show ?thesis
    unfolding f [symmetric]
    using f ids cards_of_not_learned_refs [of "masterFlashcardsData ?s"]
      ids_of_refs [OF ids] sorted_not_learned_refs [of "masterFlashcardsData ?s"]
    by simp
qed


section \<open>Word highlighting within one session\<close>




lemma rnd_exact: "rnd exact_rounding x = x"
  by (simp add: exact_rounding.rep_eq)

lemma three_cards_current: "filtered_at three_cards (currentIndex three_cards) \<noteq> None"
  by (simp add: three_cards_def initial_state_def filtered_at_def card_at_def js_index_def
        deref_def)

lemma play_started:
  assumes "filtered_at s (currentIndex s) \<noteq> None"
  shows "sessions (playAudioFromApi text (Some it) Tts_playing s)
           = sessions s @ [\<lparr>wordSpans = word_spans it, lastHighlightedIndex = - 1\<rparr>]"
    and "onloadedmetadata (playAudioFromApi text (Some it) Tts_playing s) = Some (length (sessions s))"
    and "ontimeupdate (playAudioFromApi text (Some it) Tts_playing s) = None"
    and "highlighted (playAudioFromApi text (Some it) Tts_playing s) = {}"
  using assms
  by (auto simp: playAudioFromApi_unfold start_playback_unfold announce_loading_def stop_previous_def
        toggleNavigation_def showAppMessage_def log_request_def Let_def)

lemma fold_timeupdate_idle:
  "ontimeupdate s = None \<Longrightarrow> fold (fire_timeupdate rd) ts s = s"
  by (induction ts) (simp_all add: fire_timeupdate_def)

text \<open>C9. When the element played has no word span, or the duration is \<open>NaN\<close> or \<open>0\<close>, the
  \<open>onloadedmetadata\<close> handler returns before the quotient: no \<open>timePerWord\<close> exists, no
  time-progress handler is installed, and after any notifications the state is still the one
  the call of \<open>playAudioFromApi\<close> left, with no word marked. This holds in every
  arithmetic.\<close>

theorem no_words_no_highlighting:
  assumes "filtered_at s (currentIndex s) \<noteq> None"
    and "word_spans it = [] \<or> d = Dur_NaN \<or> d = Dur 0"
  shows "timePerWord rd d (length (word_spans it)) = None
       \<and> uninterrupted_session rd text it d ts s = playAudioFromApi text (Some it) Tts_playing s
       \<and> ontimeupdate (uninterrupted_session rd text it d ts s) = None
       \<and> highlighted (uninterrupted_session rd text it d ts s) = {}"
proof -
  let ?s1 = "playAudioFromApi text (Some it) Tts_playing s"
  have tpw: "timePerWord rd d (length (word_spans it)) = None"
    using assms(2) by (cases d) auto
  have "fire_loadedmetadata rd d ?s1 = ?s1"
    using tpw play_started(1,2) [OF assms(1), of "text" it]
    by (simp add: fire_loadedmetadata_def nth_append)
  then have "uninterrupted_session rd text it d ts s = ?s1"
    using play_started(3) [OF assms(1), of "text" it]
    by (simp add: uninterrupted_session_def fold_timeupdate_idle)
  then show ?thesis
    using tpw play_started(3,4) [OF assms(1), of "text" it] by simp
qed

theorem no_words_no_highlighting_witness:
  "filtered_at three_cards (currentIndex three_cards) \<noteq> None
   \<and> ontimeupdate
        (uninterrupted_session exact_rounding ''look up'' name_element Dur_NaN [1 / 5, 2 / 5]
           three_cards) = None
   \<and> highlighted
        (uninterrupted_session exact_rounding ''look up'' name_element Dur_NaN [1 / 5, 2 / 5]
           three_cards) = {}"
proof -
  have h: "word_spans name_element = [] \<or> Dur_NaN = Dur_NaN \<or> Dur_NaN = Dur 0" by simp
  from no_words_no_highlighting [OF three_cards_current h] three_cards_current
  show ?thesis by blast
qed















section \<open>Starting a new playback over a running one\<close>

lemma playing_state_eval:
  "playing_state =
     three_cards\<lparr>isAudioPlaying := True, audio_paused := False,
       ontimeupdate := Some (0, Finite_time (1 / 2)), onloadedmetadata := Some 0,
       onended := Some 0,
       sessions := [\<lparr>wordSpans = [100, 101], lastHighlightedIndex = 0\<rparr>],
       highlighted := {100}, navDisabled := True, message := Some (Msg_playing, False),
       requests := [Req_synthesize_speech ''look up'']\<rparr>"
  by (simp add: playing_state_def uninterrupted_session_def fire_timeupdate_def
        timeupdate_handler_def fire_loadedmetadata_def playAudioFromApi_unfold start_playback_unfold
        announce_loading_def stop_previous_def toggleNavigation_def showAppMessage_def
        log_request_def three_cards_def initial_state_def name_element_def filtered_at_def
        card_at_def js_index_def deref_def SYNC_OFFSET_def mark_current_def unmark_last_def
        rnd_exact Let_def)

lemma overlapping_calls_eval:
  "overlapping_calls =
     three_cards\<lparr>isAudioPlaying := True, audio_paused := False,
       ontimeupdate := Some (1, Finite_time (1 / 2)), onloadedmetadata := Some 1,
       onended := Some 1,
       sessions := [\<lparr>wordSpans = [200, 201, 202], lastHighlightedIndex = - 1\<rparr>,
                    \<lparr>wordSpans = [100, 101], lastHighlightedIndex = 0\<rparr>],
       highlighted := {100}, navDisabled := True, message := Some (Msg_playing, False),
       requests := [Req_synthesize_speech ''look up'', Req_synthesize_speech ''give in to it'']\<rparr>"
  by (simp add: overlapping_calls_def fire_timeupdate_def timeupdate_handler_def
        fire_loadedmetadata_def playAudioFromApi_unfold start_playback_unfold play_request_def
        play_response_def announce_loading_def stop_previous_def toggleNavigation_def
        showAppMessage_def log_request_def three_cards_def initial_state_def name_element_def
        example_element_def filtered_at_def card_at_def js_index_def deref_def SYNC_OFFSET_def
        mark_current_def unmark_last_def rnd_exact Let_def)

text \<open>C7 as stated fails, in two ways. With a session playing, the first lines of a new call
  leave the \<open>onloadedmetadata\<close> and \<open>onended\<close> handlers of the running session attached, and
  when the new request is rejected they are still attached after the call has ended. And a
  session that is still waiting for its response when the new call is made is not stopped at
  all: the new call runs to its end and plays, then the response of the old one arrives, its
  audio replaces the new one, its handlers are installed and its word is marked.\<close>

theorem previous_handlers_stay_counterexample:
  "isAudioPlaying playing_state
   \<and> onloadedmetadata playing_state = Some 0 \<and> onended playing_state = Some 0
   \<and> onloadedmetadata (play_request ''give in'' (Some name_element) playing_state) = Some 0
   \<and> onended (play_request ''give in'' (Some name_element) playing_state) = Some 0
   \<and> onloadedmetadata (playAudioFromApi ''give in'' (Some name_element) Tts_rejected playing_state)
       = Some 0
   \<and> onended (playAudioFromApi ''give in'' (Some name_element) Tts_rejected playing_state)
       = Some 0
   \<and> isAudioPlaying
       (playAudioFromApi ''give in to it'' (Some example_element) Tts_playing
          (play_request ''look up'' (Some name_element) three_cards))
   \<and> wordSpans (sessions overlapping_calls ! 1) = word_spans name_element
   \<and> \<not> audio_paused overlapping_calls
   \<and> onloadedmetadata overlapping_calls = Some 1 \<and> onended overlapping_calls = Some 1
   \<and> ontimeupdate overlapping_calls = Some (1, Finite_time (1 / 2))
   \<and> highlighted overlapping_calls = {100}"
  by (simp add: playing_state_eval overlapping_calls_eval playAudioFromApi_unfold
        start_playback_unfold play_request_def
        announce_loading_def stop_previous_def tts_catch_def toggleNavigation_def
        showAppMessage_def log_request_def three_cards_def initial_state_def name_element_def
        example_element_def filtered_at_def card_at_def js_index_def deref_def Let_def)

text \<open>C7, as the script has it. A call made while the audio of the previous session is
  playing (\<open>isAudioPlaying\<close> is set) pauses the audio, clears the time-progress handler and
  removes every highlight marker, all before its request is sent; both still hold when the
  call ends with nothing run in between. The metadata-loaded and ended handlers are not
  cleared: each keeps its value until the new session assigns its own, \<open>onloadedmetadata\<close>
  when an element was given and an audio URL came back, \<open>onended\<close> when \<open>play()\<close> is
  fulfilled.\<close>

theorem play_supersedes_previous:
  assumes "isAudioPlaying s"
  shows "audio_paused (play_request text el s) \<and> \<not> isAudioPlaying (play_request text el s)
       \<and> ontimeupdate (play_request text el s) = None
       \<and> highlighted (play_request text el s) = {}
       \<and> onloadedmetadata (play_request text el s) = onloadedmetadata s
       \<and> onended (play_request text el s) = onended s
       \<and> ontimeupdate (playAudioFromApi text el out s) = None
       \<and> highlighted (playAudioFromApi text el out s) = {}
       \<and> onloadedmetadata (playAudioFromApi text el out s)
           = (if filtered_at s (currentIndex s) \<noteq> None \<and> el \<noteq> None
                 \<and> (out = Tts_playing \<or> out = Tts_play_rejected)
              then Some (length (sessions s)) else onloadedmetadata s)
       \<and> onended (playAudioFromApi text el out s)
           = (if filtered_at s (currentIndex s) \<noteq> None \<and> out = Tts_playing
              then Some (length (sessions s)) else onended s)"
  using assms
  by (cases out; cases el)
     (auto simp: playAudioFromApi_unfold start_playback_unfold play_request_def
        announce_loading_def stop_previous_def
        tts_catch_def toggleNavigation_def showAppMessage_def log_request_def Let_def
      split: option.splits)

theorem play_supersedes_previous_witness:
  "isAudioPlaying playing_state
   \<and> audio_paused (play_request ''give in'' (Some name_element) playing_state)
   \<and> ontimeupdate (play_request ''give in'' (Some name_element) playing_state) = None
   \<and> highlighted (play_request ''give in'' (Some name_element) playing_state) = {}
   \<and> highlighted (playAudioFromApi ''give in'' (Some name_element) Tts_playing playing_state) = {}"
proof -
  have h: "isAudioPlaying playing_state" by (simp add: playing_state_eval)
  from play_supersedes_previous [OF h, of "''give in''" "Some name_element" Tts_playing] h
  show ?thesis by blast
qed

section \<open>Errors and the interaction lock\<close>

text \<open>C3, evaluated where it fails. The third card has no image, so loading it asks for one.
  When the request succeeds and the returned image then fails to load, nothing reports an
  error and navigation stays disabled; the same happens when the request is rejected.\<close>

theorem generated_image_failure_keeps_lock:
  "navDisabled (loadCard 2 True env_generated_image_fails three_cards)
   \<and> message (loadCard 2 True env_generated_image_fails three_cards) = Some (Msg_generating, False)
   \<and> requests (loadCard 2 True env_generated_image_fails three_cards) = [Req_generate_image 2]
   \<and> navDisabled (loadCard 2 True env_generate_rejected three_cards)
   \<and> message (loadCard 2 True env_generate_rejected three_cards) = Some (Msg_generating, False)"
  by (simp add: loadCard_def generateAndLoadImage_def env_generated_image_fails_def
        env_generate_rejected_def env_ok_def
        set_imagePath_def clearTimeout_def truthy_path_def
        toggleNavigation_def showAppMessage_def log_request_def
        three_cards_def initial_state_def card_A_def card_B_def card_C_def filtered_at_def
        card_at_def js_index_def deref_def Let_def)

text \<open>The other error paths show an error message and release the lock; the silent ones are
  those of \<open>generateAndLoadImage\<close>.\<close>

lemma tts_failure_releases_lock:
  assumes "out \<noteq> Tts_playing"
  shows "\<not> navDisabled (playAudioFromApi text el out s)
       \<and> message (playAudioFromApi text el out s) = Some (Msg_tts_error, True)"
  using assms
  by (cases out; cases el)
     (auto simp: playAudioFromApi_unfold start_playback_unfold announce_loading_def stop_previous_def
        tts_catch_def toggleNavigation_def showAppMessage_def log_request_def Let_def
      split: option.splits)

lemma delete_failure_releases_lock:
  assumes "awaitingDeleteConfirmation s" "out \<noteq> Fetch_ok"
  shows "\<not> navDisabled (deleteImage out env s)
       \<and> message (deleteImage out env s) = Some (Msg_error, True)"
  using assms
  by (cases out)
     (auto simp: deleteImage_def error_catch_def toggleNavigation_def showAppMessage_def
        log_request_def Let_def split: option.splits)

lemma generate_not_ok_releases_lock:
  assumes "gen env = Gen_not_ok"
  shows "\<not> navDisabled (generateAndLoadImage c env s)
       \<and> message (generateAndLoadImage c env s) = Some (Msg_ai_error, True)"
  using assms
  by (simp add: generateAndLoadImage_def toggleNavigation_def showAppMessage_def
        log_request_def Let_def)

lemma generate_silent_failures_keep_lock:
  assumes "navDisabled s"
    and "gen env = Gen_rejected \<or> gen env = Gen_bad_json
         \<or> (\<exists>p. gen env = Gen_ok p) \<and> gen_img env = Img_onerror"
  shows "navDisabled (generateAndLoadImage c env s)
       \<and> (\<forall>m. message (generateAndLoadImage c env s) \<noteq> Some (m, True))"
  using assms
  by (auto simp: generateAndLoadImage_def toggleNavigation_def showAppMessage_def
        log_request_def set_imagePath_def Let_def split: option.splits)

section \<open>The confirmation guard of \<open>deleteImage\<close>\<close>

lemma guard_frame_play:
  "awaitingDeleteConfirmation (playAudioFromApi text el out s) = awaitingDeleteConfirmation s"
  "timers (playAudioFromApi text el out s) = timers s"
  "filter is_delete_request (requests (playAudioFromApi text el out s))
     = filter is_delete_request (requests s)"
  by (auto simp: playAudioFromApi_unfold start_playback_unfold announce_loading_def stop_previous_def
        tts_catch_def toggleNavigation_def showAppMessage_def log_request_def Let_def
      split: option.splits tts_outcome.splits)

lemma guard_frame_generate:
  "awaitingDeleteConfirmation (generateAndLoadImage c env s) = awaitingDeleteConfirmation s"
  "timers (generateAndLoadImage c env s) = timers s"
  "filter is_delete_request (requests (generateAndLoadImage c env s))
     = filter is_delete_request (requests s)"
  by (auto simp: generateAndLoadImage_def toggleNavigation_def showAppMessage_def log_request_def
        set_imagePath_def Let_def
      split: option.splits gen_outcome.splits img_event.splits)

lemma loadCard_resets_guard:
  assumes "filteredFlashcardsData s \<noteq> []"
  shows "\<not> awaitingDeleteConfirmation (loadCard i a env s)"
    and "timers (loadCard i a env s) = timers (clearTimeout (deleteConfirmationTimeoutId s) s)"
    and "filter is_delete_request (requests (loadCard i a env s))
           = filter is_delete_request (requests s)"
  using assms
  by (auto simp: loadCard_def guard_frame_play guard_frame_generate toggleNavigation_def
        showAppMessage_def Let_def clearTimeout_def
      split: option.splits img_event.splits)

lemma first_click:
  assumes "\<not> awaitingDeleteConfirmation s"
  shows "deleteImage out env s =
           s\<lparr>awaitingDeleteConfirmation := True, message := Some (Msg_confirm_delete, True),
             timers := timers s @ [(next_timer s, clock s + 5000)],
             deleteConfirmationTimeoutId := Some (next_timer s),
             next_timer := Suc (next_timer s)\<rparr>"
  using assms by (simp add: deleteImage_def setTimeout_confirm_def showAppMessage_def)

lemma elapse_before_deadline:
  assumes "timers s = [(i, clock s + 5000)]" "d < 5000"
  shows "elapse d s = s\<lparr>clock := clock s + d\<rparr>"
  using assms by (simp add: elapse_def Let_def)

lemma elapse_after_deadline:
  assumes "timers s = [(i, clock s + 5000)]" "5000 \<le> d"
  shows "elapse d s = timeout_callback (s\<lparr>clock := clock s + d, timers := []\<rparr>)"
  using assms by (simp add: elapse_def Let_def)

lemma second_click:
  assumes "awaitingDeleteConfirmation s" "timers s = [(i, dl)]"
    "deleteConfirmationTimeoutId s = Some i" "filtered_at s (currentIndex s) = Some (r, c)"
  shows "\<not> awaitingDeleteConfirmation (deleteImage out env s)"
    and "timers (deleteImage out env s) = []"
    and "delete_requests (deleteImage out env s) = delete_requests s @ [Req_delete_image (card_id c)]"
proof -
  let ?s1 = "toggleNavigation True
               (showAppMessage Msg_deleting False
                  ((clearTimeout (deleteConfirmationTimeoutId s) s)
                     \<lparr>awaitingDeleteConfirmation := False\<rparr>))"
  let ?s2 = "log_request (Req_delete_image (card_id c)) ?s1"
  have fa: "filtered_at ?s1 (currentIndex ?s1) = Some (r, c)"
    using assms(4) by (simp add: toggleNavigation_def showAppMessage_def clearTimeout_def
        filtered_at_def split: option.splits)
  have d: "deleteImage out env s =
     (case out of Fetch_rejected \<Rightarrow> error_catch ?s2 | Fetch_not_ok \<Rightarrow> error_catch ?s2
      | Fetch_ok \<Rightarrow> loadCard (currentIndex ?s2) True env (set_imagePath r None ?s2))"
    using assms(1) fa by (simp add: deleteImage_def Let_def)
  have t2: "timers ?s2 = []" and a2: "\<not> awaitingDeleteConfirmation ?s2"
    and r2: "delete_requests ?s2 = delete_requests s @ [Req_delete_image (card_id c)]"
    and id2: "deleteConfirmationTimeoutId ?s2 = Some i"
    using assms(2,3)
    by (simp_all add: toggleNavigation_def showAppMessage_def clearTimeout_def log_request_def
          delete_requests_def)
  have ne: "filteredFlashcardsData (set_imagePath r None ?s2) \<noteq> []"
    using assms(4) by (auto simp: toggleNavigation_def showAppMessage_def clearTimeout_def
        log_request_def dest: filtered_at_SomeD split: option.splits)
  have sp: "timers (set_imagePath r None ?s2) = []"
    "delete_requests (set_imagePath r None ?s2) = delete_requests s @ [Req_delete_image (card_id c)]"
    "deleteConfirmationTimeoutId (set_imagePath r None ?s2) = Some i"
    using t2 r2 id2 by (simp_all add: set_imagePath_def delete_requests_def)
  show "\<not> awaitingDeleteConfirmation (deleteImage out env s)"
    unfolding d using a2 loadCard_resets_guard(1) [OF ne]
    by (cases out) (simp_all add: error_catch_def toggleNavigation_def showAppMessage_def)
  show "timers (deleteImage out env s) = []"
    unfolding d using t2 sp loadCard_resets_guard(2) [OF ne]
    by (cases out) (simp_all add: error_catch_def toggleNavigation_def showAppMessage_def
        clearTimeout_def)
  show "delete_requests (deleteImage out env s) = delete_requests s @ [Req_delete_image (card_id c)]"
    unfolding d delete_requests_def
    using r2 sp loadCard_resets_guard(3) [OF ne, of "currentIndex ?s2" True env]
    by (cases out) (simp_all add: error_catch_def toggleNavigation_def showAppMessage_def
        delete_requests_def)
qed

text \<open>C6. From the idle guard (not awaiting, no timeout armed) with a card on display: the
  first click sets the guard awaiting, arms one timeout 5000 ms ahead and sends nothing. A
  second click less than 5000 ms later leaves the guard idle with no timeout armed and adds
  exactly one delete request to the log. When 5000 ms or more pass instead, the guard is idle
  again, no timeout is armed, nothing was sent and no card changed, and the next click only
  sets the guard awaiting again. \<open>loadCard\<close> in the awaiting state leaves the guard idle with
  no timeout armed.\<close>

theorem confirmation_guard:
  assumes idle: "\<not> awaitingDeleteConfirmation s" "timers s = []"
    and cur: "filtered_at s (currentIndex s) = Some (r, c)"
    and d1: "d1 < 5000" and d2: "5000 \<le> d2"
  shows "awaitingDeleteConfirmation (deleteImage o1 e1 s)
       \<and> timers (deleteImage o1 e1 s) = [(next_timer s, clock s + 5000)]
       \<and> requests (deleteImage o1 e1 s) = requests s
       \<and> masterFlashcardsData (deleteImage o1 e1 s) = masterFlashcardsData s
       \<and> \<not> awaitingDeleteConfirmation (deleteImage o2 e2 (elapse d1 (deleteImage o1 e1 s)))
       \<and> timers (deleteImage o2 e2 (elapse d1 (deleteImage o1 e1 s))) = []
       \<and> delete_requests (deleteImage o2 e2 (elapse d1 (deleteImage o1 e1 s)))
           = delete_requests s @ [Req_delete_image (card_id c)]
       \<and> \<not> awaitingDeleteConfirmation (elapse d2 (deleteImage o1 e1 s))
       \<and> timers (elapse d2 (deleteImage o1 e1 s)) = []
       \<and> requests (elapse d2 (deleteImage o1 e1 s)) = requests s
       \<and> masterFlashcardsData (elapse d2 (deleteImage o1 e1 s)) = masterFlashcardsData s
       \<and> awaitingDeleteConfirmation (deleteImage o2 e2 (elapse d2 (deleteImage o1 e1 s)))
       \<and> requests (deleteImage o2 e2 (elapse d2 (deleteImage o1 e1 s))) = requests s
       \<and> \<not> awaitingDeleteConfirmation (loadCard i a e2 (elapse d1 (deleteImage o1 e1 s)))
       \<and> timers (loadCard i a e2 (elapse d1 (deleteImage o1 e1 s))) = []"
proof -
  let ?s1 = "deleteImage o1 e1 s"
  have s1: "?s1 = s\<lparr>awaitingDeleteConfirmation := True, message := Some (Msg_confirm_delete, True),
             timers := timers s @ [(next_timer s, clock s + 5000)],
             deleteConfirmationTimeoutId := Some (next_timer s),
             next_timer := Suc (next_timer s)\<rparr>"
    by (rule first_click [OF idle(1)])
  have t1: "timers ?s1 = [(next_timer s, clock ?s1 + 5000)]"
    unfolding s1 using idle(2) by simp
  have a: "awaitingDeleteConfirmation ?s1" "timers ?s1 = [(next_timer s, clock s + 5000)]"
    "requests ?s1 = requests s" "masterFlashcardsData ?s1 = masterFlashcardsData s"
    unfolding s1 using idle(2) by simp_all
  let ?w = "elapse d1 ?s1"
  have w: "?w = ?s1\<lparr>clock := clock ?s1 + d1\<rparr>"
    by (rule elapse_before_deadline [OF t1 d1])
  have wa: "awaitingDeleteConfirmation ?w" and wt: "timers ?w = [(next_timer s, clock s + 5000)]"
    and wi: "deleteConfirmationTimeoutId ?w = Some (next_timer s)"
    and wf: "filtered_at ?w (currentIndex ?w) = Some (r, c)"
    and wd: "delete_requests ?w = delete_requests s"
    unfolding w using a cur by (simp_all add: s1 delete_requests_def filtered_at_def)
  note b = second_click [OF wa wt wi wf, of o2 e2, unfolded wd]
  have wne: "filteredFlashcardsData ?w \<noteq> []"
    using wf by (auto dest: filtered_at_SomeD)
  have d: "\<not> awaitingDeleteConfirmation (loadCard i a e2 ?w)" "timers (loadCard i a e2 ?w) = []"
    using loadCard_resets_guard(1,2) [OF wne, of i a e2] wt wi
    by (simp_all add: clearTimeout_def)
  let ?x = "elapse d2 ?s1"
  have x: "?x = timeout_callback (?s1\<lparr>clock := clock ?s1 + d2, timers := []\<rparr>)"
    by (rule elapse_after_deadline [OF t1 d2])
  have c: "\<not> awaitingDeleteConfirmation ?x" "timers ?x = []" "requests ?x = requests s"
    "masterFlashcardsData ?x = masterFlashcardsData s"
    unfolding x using a by (simp_all add: timeout_callback_def showAppMessage_def)
  have c': "awaitingDeleteConfirmation (deleteImage o2 e2 ?x)"
    "requests (deleteImage o2 e2 ?x) = requests s"
    using c by (simp_all add: first_click [OF c(1)])
  from a b d c c' show ?thesis by simp
qed

theorem confirmation_guard_witness:
  "\<not> awaitingDeleteConfirmation three_cards \<and> timers three_cards = []
   \<and> filtered_at three_cards (currentIndex three_cards) = Some (1, card_B)
   \<and> (1000::nat) < 5000 \<and> (5000::nat) \<le> 6000
   \<and> awaitingDeleteConfirmation (deleteImage Fetch_ok env_ok three_cards)
   \<and> \<not> awaitingDeleteConfirmation
         (deleteImage Fetch_ok env_ok (elapse 1000 (deleteImage Fetch_ok env_ok three_cards)))
   \<and> delete_requests
         (deleteImage Fetch_ok env_ok (elapse 1000 (deleteImage Fetch_ok env_ok three_cards)))
       = delete_requests three_cards @ [Req_delete_image (card_id card_B)]
   \<and> \<not> awaitingDeleteConfirmation (elapse 6000 (deleteImage Fetch_ok env_ok three_cards))
   \<and> requests (elapse 6000 (deleteImage Fetch_ok env_ok three_cards)) = requests three_cards"
proof -
  have h1: "\<not> awaitingDeleteConfirmation three_cards" and h2: "timers three_cards = []"
    by (simp_all add: three_cards_def initial_state_def)
  have h3: "filtered_at three_cards (currentIndex three_cards) = Some (1, card_B)"
    by (simp add: three_cards_def initial_state_def filtered_at_def card_at_def js_index_def
          deref_def)
  have h4: "(1000::nat) < 5000" and h5: "(5000::nat) \<le> 6000" by simp_all
  from confirmation_guard [OF h1 h2 h3 h4 h5, of Fetch_ok env_ok Fetch_ok env_ok] h1 h2 h3
  show ?thesis by simp
qed

end
